theory Spec2Isabelle
  imports Main "HOL-Library.Char_ord" "HOL-Library.List_Lexorder"
begin

section \<open>Python values, exceptions and strings\<close>

text \<open>
  The values that reach the code of \<^verbatim>\<open>debugger.py\<close> from outside: what a TOML document
  can hold (booleans, integers, strings, arrays, tables) and \<^verbatim>\<open>None\<close>. Floats and
  datetimes are not part of the model. A string is the list of its characters.
\<close>

datatype pyval =
    PNone
  | PBool bool
  | PInt int
  | PStr string
  | PList "pyval list"
  | PDict "(string \<times> pyval) list"

text \<open>
  \<open>exn\<close> holds the instances of Python's class \<^verbatim>\<open>Exception\<close>, the class every handler
  of the source names (\<^verbatim>\<open>except Exception\<close>); \<open>MarkupError\<close> is the one Rich raises for
  console markup it cannot parse, and \<open>OtherException c m\<close> is an instance of any further
  class \<open>c\<close> derived from \<^verbatim>\<open>Exception\<close>, with message \<open>m\<close>. What a statement can raise
  is an instance of \<^verbatim>\<open>BaseException\<close>: an \<^verbatim>\<open>Exception\<close>, or one of the two that are not,
  \<^verbatim>\<open>SystemExit\<close> and \<^verbatim>\<open>KeyboardInterrupt\<close>, which \<^verbatim>\<open>except Exception\<close> lets pass.
\<close>

datatype exn =
    TypeError string
  | KeyError string
  | OSError string
  | TOMLDecodeError string
  | MarkupError string
  | OtherException string string

datatype base_exn = Exception exn | SystemExit | KeyboardInterrupt

fun str_exn :: "exn \<Rightarrow> string" where
  "str_exn (TypeError m) = m"
| "str_exn (KeyError k) = [CHR 0x27] @ k @ [CHR 0x27]"
| "str_exn (OSError m) = m"
| "str_exn (TOMLDecodeError m) = m"
| "str_exn (MarkupError m) = m"
| "str_exn (OtherException c m) = m"

fun type_name :: "pyval \<Rightarrow> string" where
  "type_name PNone = ''NoneType''"
| "type_name (PBool b) = ''bool''"
| "type_name (PInt i) = ''int''"
| "type_name (PStr s) = ''str''"
| "type_name (PList xs) = ''list''"
| "type_name (PDict kvs) = ''dict''"

text \<open>Truth value testing, as \<^verbatim>\<open>if v:\<close> does it.\<close>

fun truthy :: "pyval \<Rightarrow> bool" where
  "truthy PNone = False"
| "truthy (PBool b) = b"
| "truthy (PInt i) = (i \<noteq> 0)"
| "truthy (PStr s) = (s \<noteq> [])"
| "truthy (PList xs) = (xs \<noteq> [])"
| "truthy (PDict kvs) = (kvs \<noteq> [])"

text \<open>
  The right operand of \<^verbatim>\<open>int - v\<close> and \<^verbatim>\<open>int + v\<close>: an integer, or a boolean (a
  subclass of \<^verbatim>\<open>int\<close>); every other value of the model makes the operator raise
  \<^verbatim>\<open>TypeError\<close>.
\<close>

fun int_operand :: "pyval \<Rightarrow> int option" where
  "int_operand (PInt i) = Some i"
| "int_operand (PBool b) = Some (if b then 1 else 0)"
| "int_operand v = None"

definition unsupported_operand :: "string \<Rightarrow> pyval \<Rightarrow> exn" where
  "unsupported_operand opr v =
     TypeError (''unsupported operand type(s) for '' @ opr @ '': '' @ [CHR 0x27] @ ''int''
       @ [CHR 0x27] @ '' and '' @ [CHR 0x27] @ type_name v @ [CHR 0x27])"

text \<open>\<^verbatim>\<open>str(n)\<close> of an integer: its decimal digits, with a sign when negative.\<close>

function digits :: "nat \<Rightarrow> string" where
  "digits n =
     (if n < 10 then [char_of (48 + n)]
      else digits (n div 10) @ [char_of (48 + n mod 10)])"
  by pat_completeness auto
termination
  by (relation "measure id") auto

declare digits.simps [simp del]

definition str_int :: "int \<Rightarrow> string" where
  "str_int i = (if i < 0 then CHR ''-'' # digits (nat (- i)) else digits (nat i))"

text \<open>
  \<^verbatim>\<open>str.strip()\<close> removes leading and trailing whitespace: the characters for which
  \<^verbatim>\<open>str.isspace\<close> holds (below code point 256: tab to carriage return, the four
  separators 28 to 31, the space, NEL and the no-break space).
\<close>

definition is_space :: "char \<Rightarrow> bool" where
  "is_space c = ((of_char c :: nat) \<in> {9, 10, 11, 12, 13, 28, 29, 30, 31, 32, 133, 160})"

definition strip :: "string \<Rightarrow> string" where
  "strip s = rev (dropWhile is_space (rev (dropWhile is_space s)))"

text \<open>\<^verbatim>\<open>sep.join(xs)\<close>.\<close>

fun join :: "string \<Rightarrow> string list \<Rightarrow> string" where
  "join sep [] = []"
| "join sep [x] = x"
| "join sep (x # y # ys) = x @ sep @ join sep (y # ys)"

text \<open>
  \<^verbatim>\<open>xs[i:j]\<close> on a list or a string: a negative index counts from the end, both are
  clipped to the length, and the slice is empty when the stop is not beyond the start.
\<close>

definition py_slice :: "'a list \<Rightarrow> int \<Rightarrow> int \<Rightarrow> 'a list" where
  "py_slice xs i j =
     (let n = int (length xs);
          i' = (if i < 0 then max 0 (i + n) else min i n);
          j' = (if j < 0 then max 0 (j + n) else min j n)
      in take (nat (j' - i')) (drop (nat i') xs))"

section \<open>Console markup\<close>

text \<open>
  \<^verbatim>\<open>console.print\<close> and \<^verbatim>\<open>console.rule\<close> read a string as Rich console markup. A tag is
  an opening bracket, one of the characters \<^verbatim>\<open>a\<close> to \<^verbatim>\<open>z\<close>, \<^verbatim>\<open>#\<close>, \<^verbatim>\<open>/\<close>, \<^verbatim>\<open>@\<close>, then the
  shortest run of characters other than an opening bracket up to a closing bracket; an
  odd number of backslashes before it makes it plain text. \<open>match_tag s\<close> is the match of
  a tag at the start of \<open>s\<close> (the number of backslashes and the text between the
  brackets), \<open>scan_tags\<close> the tags of a string from left to right with the positions
  Rich reports for them (\<open>skip\<close> counts the characters still inside the last match).
\<close>

definition tag_start :: "char \<Rightarrow> bool" where
  "tag_start c =
     ((97 \<le> (of_char c :: nat) \<and> (of_char c :: nat) \<le> 122)
      \<or> c = CHR ''#'' \<or> c = CHR ''/'' \<or> c = CHR ''@'')"

definition match_tag :: "string \<Rightarrow> (nat \<times> string) option" where
  "match_tag s =
     (let escapes = length (takeWhile (\<lambda>c. c = CHR 0x5C) s) in
      case drop escapes s of
        b # c # rest \<Rightarrow>
          if b = CHR ''['' \<and> tag_start c then
            (let body = takeWhile (\<lambda>x. x \<noteq> CHR '']'' \<and> x \<noteq> CHR ''['') rest in
             case drop (length body) rest of
               x # after \<Rightarrow> if x = CHR '']'' then Some (escapes, c # body) else None
             | [] \<Rightarrow> None)
          else None
      | _ \<Rightarrow> None)"

fun scan_tags :: "nat \<Rightarrow> nat \<Rightarrow> string \<Rightarrow> (nat \<times> string) list" where
  "scan_tags position skip [] = []"
| "scan_tags position skip (c # cs) =
     (if 0 < skip then scan_tags (position + 1) (skip - 1) cs
      else case match_tag (c # cs) of
        None \<Rightarrow> scan_tags (position + 1) 0 cs
      | Some (escapes, tag_text) \<Rightarrow>
          (if odd escapes then [] else [(position + escapes, tag_text)])
          @ scan_tags (position + 1) (escapes + length tag_text + 1) cs)"

text \<open>
  The two messages of \<^verbatim>\<open>MarkupError\<close>, and the pass over the tags: an opening tag pushes
  its normalised name; \<^verbatim>\<open>[/name]\<close> pops the newest open tag of that normalised name and
  fails when there is none; \<^verbatim>\<open>[/]\<close> pops the newest open tag and fails when none is
  open. The normalisation of style names (\<^verbatim>\<open>Style.normalize\<close>) is Rich's own and a
  parameter here; what Rich does with the parameters of an \<^verbatim>\<open>@\<close> tag is not modelled.
\<close>

definition nothing_to_close :: "nat \<Rightarrow> string" where
  "nothing_to_close position =
     ''closing tag '' @ [CHR 0x27] @ ''[/]'' @ [CHR 0x27] @ '' at position ''
       @ str_int (int position) @ '' has nothing to close''"

definition no_open_tag :: "string \<Rightarrow> nat \<Rightarrow> string" where
  "no_open_tag tag_text position =
     ''closing tag '' @ [CHR 0x27] @ ''['' @ tag_text @ '']'' @ [CHR 0x27] @ '' at position ''
       @ str_int (int position) @ '' doesn'' @ [CHR 0x27] @ ''t match any open tag''"

fun close_tags :: "(string \<Rightarrow> string) \<Rightarrow> (nat \<times> string) list \<Rightarrow> string list \<Rightarrow> string option" where
  "close_tags style_norm [] style_stack = None"
| "close_tags style_norm ((position, tag_text) # tags) style_stack =
     (let name = takeWhile (\<lambda>c. c \<noteq> CHR ''='') tag_text in
      if take 1 name = ''/'' then
        (let style_name = strip (drop 1 name) in
         if style_name \<noteq> [] then
           (if style_norm style_name \<in> set style_stack
            then close_tags style_norm tags (remove1 (style_norm style_name) style_stack)
            else Some (no_open_tag tag_text position))
         else
           (case style_stack of
              [] \<Rightarrow> Some (nothing_to_close position)
            | newest # older \<Rightarrow> close_tags style_norm tags older))
      else close_tags style_norm tags (style_norm name # style_stack))"

text \<open>The message of the \<^verbatim>\<open>MarkupError\<close> a string raises, if it raises one.\<close>

definition markup_error :: "(string \<Rightarrow> string) \<Rightarrow> string \<Rightarrow> string option" where
  "markup_error style_norm markup = close_tags style_norm (scan_tags 0 0 markup) []"

section \<open>Frames, renderables and the world\<close>

text \<open>
  An execution frame as the code reads it: \<^verbatim>\<open>f_code.co_filename\<close>,
  \<^verbatim>\<open>f_code.co_name\<close>, \<^verbatim>\<open>f_code.co_names\<close>, \<^verbatim>\<open>f_lineno\<close>, the two variable tables (in
  insertion order) and the link \<^verbatim>\<open>f_back\<close> to the caller.
\<close>

datatype frame =
  Frame (co_filename: string) (co_name: string) (co_names: "string list") (f_lineno: int)
    (f_locals: "(string \<times> pyval) list") (f_globals: "(string \<times> pyval) list")
    (f_back: "frame option")

text \<open>What the code hands to the Rich library.\<close>

datatype rich_syntax =
  Syntax (code: string) (lexer: string) (line_numbers: bool) (start_line: int)
    (highlight_lines: "int set") (indent_guides: bool)

datatype cell = CStr string | CPretty pyval nat

datatype column = Column (header: string) (justify: "string option") (style: "string option")

datatype table =
  Table (table_title: string) (table_expand: bool) (table_columns: "column list")
    (table_rows: "cell list list")

datatype renderable =
    Markup string
  | Panel rich_syntax string bool
  | TableR table
  | Pretty pyval nat
  | Traceback exn

text \<open>
  The observable history of a run, in order: what was sent to the shared console, and
  which operations of the inherited debugger (\<^verbatim>\<open>pdb.Pdb\<close>) were entered.
\<close>

type_synonym traceback = nat

datatype event =
    Rule string
  | Print renderable
  | SuperInteraction "frame option" traceback
  | SuperDefault string
  | SuperGetval string

type_synonym dict = "string \<rightharpoonup> pyval"

text \<open>
  The file \<^verbatim>\<open>~/.nicerpdb.toml\<close>: absent; present, but opening or parsing it raises; or
  present with the table it parses to.
\<close>

datatype config_file = Absent | Broken exn | Parsed dict

text \<open>
  The world the code runs in: the dictionaries it allocates and mutates (a store from
  addresses to dictionaries, \<open>next_free\<close> the first unused address), the history, the
  source-line cache (\<^verbatim>\<open>linecache.getlines\<close>, the empty list for a file it cannot
  read), the configuration file, the order in which the interpreter iterates over a
  set of strings, and Rich's normalisation of style names.
\<close>

record world =
  heap :: "nat \<Rightarrow> dict"
  next_free :: nat
  trace :: "event list"
  linecache :: "string \<Rightarrow> string list"
  config_file :: config_file
  set_iter :: "string set \<Rightarrow> string list"
  style_normalize :: "string \<Rightarrow> string"

text \<open>
  A Python procedure: it runs in a world, changes it, and returns a value or raises.
\<close>

type_synonym 'a py = "world \<Rightarrow> (base_exn + 'a) \<times> world"

definition py_return :: "'a \<Rightarrow> 'a py" where
  "py_return x w = (Inr x, w)"

definition py_raise :: "base_exn \<Rightarrow> 'a py" where
  "py_raise e w = (Inl e, w)"

definition py_bind :: "'a py \<Rightarrow> ('a \<Rightarrow> 'b py) \<Rightarrow> 'b py" where
  "py_bind m f w = (case m w of (Inl e, w') \<Rightarrow> (Inl e, w') | (Inr x, w') \<Rightarrow> f x w')"

definition py_seq :: "unit py \<Rightarrow> 'b py \<Rightarrow> 'b py" where
  "py_seq m k = py_bind m (\<lambda>_. k)"

text \<open>
  \<^verbatim>\<open>try: m  except Exception as e: h e\<close>: the handler takes the instances of
  \<^verbatim>\<open>Exception\<close>; \<^verbatim>\<open>SystemExit\<close> and \<^verbatim>\<open>KeyboardInterrupt\<close> pass through.
\<close>

definition py_try :: "'a py \<Rightarrow> (exn \<Rightarrow> 'a py) \<Rightarrow> 'a py" where
  "py_try m h w =
     (case m w of
        (Inl (Exception e), w') \<Rightarrow> h e w'
      | (Inl SystemExit, w') \<Rightarrow> (Inl SystemExit, w')
      | (Inl KeyboardInterrupt, w') \<Rightarrow> (Inl KeyboardInterrupt, w')
      | (Inr x, w') \<Rightarrow> (Inr x, w'))"

definition emit :: "event \<Rightarrow> unit py" where
  "emit ev w = (Inr (), w\<lparr>trace := trace w @ [ev]\<rparr>)"

text \<open>
  \<^verbatim>\<open>console.print(r)\<close>. A string is parsed as markup first, and a \<^verbatim>\<open>MarkupError\<close> leaves
  the call before anything is written. For a panel, a table, a pretty-printed value or a
  traceback the history records the object handed to Rich; how Rich renders the strings
  inside it is not part of the model. \<^verbatim>\<open>console.rule(title)\<close> parses its title likewise.
\<close>

definition console_print :: "renderable \<Rightarrow> unit py" where
  "console_print r w =
     (case r of
        Markup s \<Rightarrow>
          (case markup_error (style_normalize w) s of
             Some msg \<Rightarrow> (Inl (Exception (MarkupError msg)), w)
           | None \<Rightarrow> emit (Print r) w)
      | _ \<Rightarrow> emit (Print r) w)"

definition console_rule :: "string \<Rightarrow> unit py" where
  "console_rule s w =
     (case markup_error (style_normalize w) s of
        Some msg \<Rightarrow> (Inl (Exception (MarkupError msg)), w)
      | None \<Rightarrow> emit (Rule s) w)"

definition getlines :: "string \<Rightarrow> string list py" where
  "getlines filename w = (Inr (linecache w filename), w)"

definition int_sub :: "int \<Rightarrow> pyval \<Rightarrow> int py" where
  "int_sub a v =
     (case int_operand v of
        Some b \<Rightarrow> py_return (a - b)
      | None \<Rightarrow> py_raise (Exception (unsupported_operand ''-'' v)))"

definition int_add :: "int \<Rightarrow> pyval \<Rightarrow> int py" where
  "int_add a v =
     (case int_operand v of
        Some b \<Rightarrow> py_return (a + b)
      | None \<Rightarrow> py_raise (Exception (unsupported_operand ''+'' v)))"

section \<open>The source renderer\<close>

text \<open>\<^verbatim>\<open>RichPdb._render_source_block(filename, lineno, context)\<close>.\<close>

definition render_source_block :: "string \<Rightarrow> int \<Rightarrow> pyval \<Rightarrow> unit py" where
  "render_source_block filename lineno context =
     py_bind (getlines filename) (\<lambda>lines.
       if lines = [] then
         console_print (Markup (''[italic]Cannot read source from '' @ filename @ ''[/]''))
       else
         py_bind (int_sub (lineno - 1) context) (\<lambda>d.
         py_bind (int_add (lineno - 1) context) (\<lambda>s.
           let start = max 0 d;
               stop = min (int (length lines)) (s + 1);
               snippet = concat (py_slice lines start stop)
           in console_print
                (Panel (Syntax snippet ''python'' True (start + 1) {lineno} True)
                   (filename @ '':'' @ str_int lineno) True))))"

text \<open>\<^verbatim>\<open>RichPdb._render_full_file(filename, lineno)\<close>; \<^verbatim>\<open>start_line\<close> has its default 1.\<close>

definition render_full_file :: "string \<Rightarrow> int \<Rightarrow> unit py" where
  "render_full_file filename lineno =
     py_bind (getlines filename) (\<lambda>lines.
       if lines = [] then
         console_print (Markup (''[italic]Cannot read file '' @ filename @ ''[/]''))
       else
         console_print
           (Panel (Syntax (concat lines) ''python'' True 1 {lineno} True)
              (''Full source: '' @ filename) True))"


section \<open>The stack renderer\<close>

text \<open>
  The loop \<^verbatim>\<open>while cur: stack.append(cur); cur = cur.f_back\<close> of
  \<^verbatim>\<open>_render_stack\<close>. A frame object is always true, so the loop ends at \<^verbatim>\<open>None\<close>.
\<close>

function walk :: "frame option \<Rightarrow> frame list \<Rightarrow> frame list" where
  "walk None stack = stack"
| "walk (Some cur) stack = walk (f_back cur) (stack @ [cur])"
  by pat_completeness auto
termination
proof (relation "measure (\<lambda>(cur, stack). size_option size cur)")
  fix cur :: frame and stack :: "frame list"
  show "((f_back cur, stack @ [cur]), (Some cur, stack))
          \<in> measure (\<lambda>(cur, stack). size_option size cur)"
    by (cases cur) simp
qed simp

text \<open>
  The context excerpt of one row: lines 151 to 158 of the source, for the cached lines
  \<open>src\<close> of the frame's file and its line number \<open>ln\<close>.
\<close>

definition excerpt :: "string list \<Rightarrow> int \<Rightarrow> string" where
  "excerpt src ln =
     (if src = [] then ''''
      else
        let a = max 0 (ln - 2);
            b = min (int (length src)) (ln + 1);
            ctx = join '' '' (map strip (py_slice src a b))
        in if length ctx > 120 then py_slice ctx 0 117 @ ''...'' else ctx)"

text \<open>
  The specification's excerpt: the lines numbered \<open>ln - 1\<close>, \<open>ln\<close> and \<open>ln + 1\<close> that
  the file has, each stripped, joined with single spaces.
\<close>

definition excerpt_lines :: "string list \<Rightarrow> int \<Rightarrow> string list" where
  "excerpt_lines src ln =
     map (\<lambda>n. src ! nat (n - 1)) [max 1 (ln - 1) .. min (int (length src)) (ln + 1)]"

definition raw_excerpt :: "string list \<Rightarrow> int \<Rightarrow> string" where
  "raw_excerpt src ln = join '' '' (map strip (excerpt_lines src ln))"

text \<open>The row added for the \<open>i\<close>-th frame \<open>fr\<close> of the reversed stack.\<close>

definition stack_row :: "(string \<Rightarrow> string list) \<Rightarrow> nat \<times> frame \<Rightarrow> cell list" where
  "stack_row cache = (\<lambda>(i, fr).
     let fname = co_filename fr;
         ln = f_lineno fr;
         func = co_name fr;
         ctx = excerpt (cache fname) ln
     in [CStr (str_int (int i)), CStr func, CStr (fname @ '':'' @ str_int ln), CStr ctx])"

text \<open>
  A debugger session (\<^verbatim>\<open>RichPdb\<close>): the attributes the code sets and reads.
  \<open>config\<close> is the address of the class attribute's dictionary, \<open>curframe\<close> the
  inherited attribute (\<^verbatim>\<open>None\<close> after \<^verbatim>\<open>reset()\<close>, which both entry points of the
  repository call), \<open>getval\<close> the inherited \<^verbatim>\<open>_getval\<close>: the value of an expression
  in the current frame, or what its evaluation raises (\<^verbatim>\<open>_getval\<close> re-raises whatever
  \<^verbatim>\<open>eval\<close> raises, \<^verbatim>\<open>SystemExit\<close> and \<^verbatim>\<open>KeyboardInterrupt\<close> included).
\<close>

record session =
  show_locals :: pyval
  context_lines :: pyval
  prompt :: string
  config :: nat
  curframe :: "frame option"
  getval :: "string \<Rightarrow> base_exn + pyval"

text \<open>\<^verbatim>\<open>RichPdb._render_stack()\<close>.\<close>

definition stack_columns :: "column list" where
  "stack_columns =
     [Column ''#'' (Some ''right'') None, Column ''Function'' None None,
      Column ''Location'' None None, Column ''Context excerpt'' None None]"

definition render_stack :: "session \<Rightarrow> unit py" where
  "render_stack self w =
     (let stack = rev (walk (curframe self) []);
          rows = map (stack_row (linecache w)) (List.enumerate 1 stack)
      in console_print
           (TableR (Table ''Stack (most recent last)'' True stack_columns rows)) w)"



section \<open>The variable renderer\<close>

text \<open>
  \<^verbatim>\<open>RichPdb._render_vars(frame)\<close>. \<^verbatim>\<open>sorted(frame.f_locals.items())\<close> compares
  (name, value) pairs; the names of a dictionary are distinct, so the names alone decide
  the order. The loop over the set \<^verbatim>\<open>names\<close> runs in the interpreter's iteration order.
\<close>

definition render_vars :: "frame \<Rightarrow> unit py" where
  "render_vars frame w =
     (let locals_table =
            Table ''Locals'' True
              [Column ''Name'' None (Some ''bold''), Column ''Value'' None None]
              (map (\<lambda>(k, v). [CStr k, CPretty v 150]) (sort_key fst (f_locals frame)));
          g = map_of (f_globals frame);
          names = set (co_names frame) \<union> {''__name__'', ''__file__''};
          globals_table =
            Table ''Globals (selected)'' True
              [Column ''Name'' None None, Column ''Value'' None None]
              (map (\<lambda>name. [CStr name, CPretty (the (g name)) 150])
                 (filter (\<lambda>name. g name \<noteq> None) (set_iter w names)))
      in py_seq (console_print (TableR globals_table))
           (console_print (TableR locals_table)) w)"

section \<open>The configuration loader\<close>

text \<open>
  Dictionaries live in the store. \<^verbatim>\<open>d.copy()\<close> allocates a new dictionary;
  \<^verbatim>\<open>d.update(other)\<close> changes \<open>d\<close> in place; \<^verbatim>\<open>d[k]\<close> raises \<^verbatim>\<open>KeyError\<close> for a
  missing key; \<^verbatim>\<open>d.get(k, default)\<close> does not.
\<close>

definition dict_copy :: "nat \<Rightarrow> nat py" where
  "dict_copy a w =
     (Inr (next_free w),
      w\<lparr>heap := (heap w)(next_free w := heap w a), next_free := Suc (next_free w)\<rparr>)"

definition dict_update :: "nat \<Rightarrow> dict \<Rightarrow> unit py" where
  "dict_update a other w = (Inr (), w\<lparr>heap := (heap w)(a := heap w a ++ other)\<rparr>)"

definition dict_getitem :: "nat \<Rightarrow> string \<Rightarrow> pyval py" where
  "dict_getitem a k w =
     (case heap w a k of None \<Rightarrow> (Inl (Exception (KeyError k)), w) | Some v \<Rightarrow> (Inr v, w))"

definition dict_get :: "nat \<Rightarrow> string \<Rightarrow> pyval \<Rightarrow> pyval py" where
  "dict_get a k d w = (case heap w a k of None \<Rightarrow> (Inr d, w) | Some v \<Rightarrow> (Inr v, w))"

text \<open>
  The module global \<^verbatim>\<open>DEFAULT_CONFIG\<close> is bound to the dictionary at address 0, whose
  content at import time is \<open>builtin_defaults\<close>.
\<close>

definition DEFAULT_CONFIG :: nat where
  "DEFAULT_CONFIG = 0"

definition builtin_defaults :: dict where
  "builtin_defaults =
     [''context_lines'' \<mapsto> PInt 3, ''show_locals'' \<mapsto> PBool True,
      ''show_stack'' \<mapsto> PBool True]"

text \<open>The world once the module's first statements have run.\<close>

definition module_world ::
  "(string \<Rightarrow> string list) \<Rightarrow> config_file \<Rightarrow> (string set \<Rightarrow> string list)
     \<Rightarrow> (string \<Rightarrow> string) \<Rightarrow> world" where
  "module_world cache file iter style_norm =
     \<lparr>heap = (\<lambda>a. Map.empty)(DEFAULT_CONFIG := builtin_defaults), next_free = 1,
      trace = [], linecache = cache, config_file = file, set_iter = iter,
      style_normalize = style_norm\<rparr>"

text \<open>\<^verbatim>\<open>os.path.exists(config_path)\<close>, and \<^verbatim>\<open>open\<close> followed by \<^verbatim>\<open>tomllib.load\<close>.\<close>

definition path_exists :: "bool py" where
  "path_exists w = (Inr (case config_file w of Absent \<Rightarrow> False | _ \<Rightarrow> True), w)"

definition open_and_load :: "dict py" where
  "open_and_load w =
     (case config_file w of
        Absent \<Rightarrow> (Inl (Exception (OSError ''No such file or directory'')), w)
      | Broken e \<Rightarrow> (Inl (Exception e), w)
      | Parsed loaded \<Rightarrow> (Inr loaded, w))"

definition config_warning :: renderable where
  "config_warning = Markup ''[yellow]Warning: error reading ~/.nicerpdb.toml[/]''"

text \<open>\<^verbatim>\<open>load_config()\<close>; it returns the address of the dictionary \<^verbatim>\<open>cfg\<close>.\<close>

definition load_config :: "nat py" where
  "load_config =
     py_bind (dict_copy DEFAULT_CONFIG) (\<lambda>cfg.
     py_bind path_exists (\<lambda>found.
     py_seq
       (if found then
          py_try (py_bind open_and_load (\<lambda>loaded. dict_update cfg loaded))
            (\<lambda>e. console_print config_warning)
        else py_return ())
       (py_return cfg)))"

text \<open>
  The specification's resolution of an option: an explicit argument (one that is not
  \<^verbatim>\<open>None\<close>), otherwise the value the configuration file gives to the key when it parses
  and has the key, otherwise the built-in default.
\<close>

definition configured :: "config_file \<Rightarrow> string \<Rightarrow> pyval option" where
  "configured file key = (case file of Parsed loaded \<Rightarrow> loaded key | _ \<Rightarrow> None)"

definition resolved :: "pyval \<Rightarrow> config_file \<Rightarrow> string \<Rightarrow> pyval \<Rightarrow> pyval" where
  "resolved arg file key builtin =
     (if arg \<noteq> PNone then arg
      else case configured file key of Some v \<Rightarrow> v | None \<Rightarrow> builtin)"

section \<open>The session controller\<close>

text \<open>
  \<^verbatim>\<open>RichPdb.__init__\<close> for a class whose attribute \<^verbatim>\<open>config\<close> is the dictionary at
  \<open>cfg\<close>: an argument that is not \<^verbatim>\<open>None\<close> wins, otherwise the configuration is read.
\<close>

definition RichPdb_init ::
  "nat \<Rightarrow> (string \<Rightarrow> base_exn + pyval) \<Rightarrow> pyval \<Rightarrow> pyval \<Rightarrow> session py" where
  "RichPdb_init cfg gv show_locals_arg context_lines_arg =
     py_bind
       (if show_locals_arg \<noteq> PNone then py_return show_locals_arg
        else dict_getitem cfg ''show_locals'') (\<lambda>sl.
     py_bind
       (if context_lines_arg \<noteq> PNone then py_return context_lines_arg
        else dict_getitem cfg ''context_lines'') (\<lambda>cl.
     py_return
       \<lparr>show_locals = sl, context_lines = cl, prompt = '' (nicerpdb) > '', config = cfg,
        curframe = None, getval = gv\<rparr>))"

text \<open>
  The inherited \<^verbatim>\<open>pdb.Pdb.interaction\<close>, \<^verbatim>\<open>pdb.Pdb.default\<close> and \<^verbatim>\<open>pdb.Pdb._getval\<close>,
  as entries of the history; \<^verbatim>\<open>_getval\<close> returns the value of the expression or raises.
\<close>

definition super_interaction :: "frame option \<Rightarrow> traceback \<Rightarrow> unit py" where
  "super_interaction frame traceback_obj = emit (SuperInteraction frame traceback_obj)"

definition super_getval :: "session \<Rightarrow> string \<Rightarrow> pyval py" where
  "super_getval self expr w = (getval self expr, w\<lparr>trace := trace w @ [SuperGetval expr]\<rparr>)"

definition super_default :: "string \<Rightarrow> pyval py" where
  "super_default line = py_seq (emit (SuperDefault line)) (py_return PNone)"

text \<open>The decision \<^verbatim>\<open>self.config.get("show_stack", True)\<close> of \<^verbatim>\<open>interaction\<close>.\<close>

definition show_stack_enabled :: "session \<Rightarrow> bool py" where
  "show_stack_enabled self =
     py_bind (dict_get (config self) ''show_stack'' (PBool True)) (\<lambda>v. py_return (truthy v))"

text \<open>
  The specification's steps 2 to 4 of a stop, for a given \<open>show_stack\<close> decision: render
  the source; render the variables if \<open>show_locals\<close>; render the stack if decided so.
\<close>

definition stop_steps :: "session \<Rightarrow> bool \<Rightarrow> frame option \<Rightarrow> unit py" where
  "stop_steps self stack_decision frame =
     (case frame of
        None \<Rightarrow> py_return ()
      | Some fr \<Rightarrow>
          py_seq (render_source_block (co_filename fr) (f_lineno fr) (context_lines self))
         (py_seq (if truthy (show_locals self) then render_vars fr else py_return ())
            (if stack_decision then render_stack self else py_return ())))"

text \<open>The body of the \<^verbatim>\<open>try\<close> statement of \<^verbatim>\<open>interaction\<close>.\<close>

definition stop_renders :: "session \<Rightarrow> frame option \<Rightarrow> unit py" where
  "stop_renders self frame =
     (case frame of
        None \<Rightarrow> py_return ()
      | Some fr \<Rightarrow>
          py_seq (render_source_block (co_filename fr) (f_lineno fr) (context_lines self))
         (py_seq (if truthy (show_locals self) then render_vars fr else py_return ())
            (py_bind (show_stack_enabled self) (\<lambda>enabled.
               if enabled then render_stack self else py_return ()))))"

definition stop_banner :: string where
  "stop_banner = ''[bold magenta]Debugger stopped[/bold magenta]''"

text \<open>\<^verbatim>\<open>RichPdb.interaction(frame, traceback_obj)\<close>.\<close>

definition interaction :: "session \<Rightarrow> frame option \<Rightarrow> traceback \<Rightarrow> unit py" where
  "interaction self frame traceback_obj =
     py_seq (console_rule stop_banner)
    (py_seq (py_try (stop_renders self frame) (\<lambda>e. console_print (Traceback e)))
       (super_interaction frame traceback_obj))"

text \<open>\<^verbatim>\<open>RichPdb.default(line)\<close>.\<close>

definition RichPdb_default :: "session \<Rightarrow> string \<Rightarrow> pyval py" where
  "RichPdb_default self line0 =
     (let line = strip line0 in
      if line = [] then py_return (PBool False)
      else
        py_try
          (py_bind (super_getval self line) (\<lambda>val.
           py_seq (console_print (Pretty val 300)) (py_return (PBool False))))
          (\<lambda>e. super_default line))"

text \<open>\<^verbatim>\<open>RichPdb.do_p(arg)\<close>.\<close>

definition do_p :: "session \<Rightarrow> string \<Rightarrow> unit py" where
  "do_p self arg =
     (if strip arg = [] then console_print (Markup ''[italic]Usage: p <expr>[/]'')
      else
        py_try
          (py_bind (super_getval self arg) (\<lambda>val. console_print (Pretty val 300)))
          (\<lambda>e. console_print (Markup (''[red]Error:[/] '' @ str_exn e))))"

section \<open>Concrete inputs\<close>

text \<open>
  A ten-line file \<^verbatim>\<open>demo.py\<close>, a cache that knows only this file, an iteration order,
  and a chain of three frames in it: \<^verbatim>\<open>main\<close> calls \<^verbatim>\<open>helper\<close> calls \<^verbatim>\<open>leaf\<close>.
\<close>

definition demo_lines :: "string list" where
  "demo_lines =
     map (\<lambda>s. s @ [CHR 0x0A])
       [''import os'', ''x = 1'', ''y = 2'', ''def leaf(a):'', ''    return a + x'',
        ''def helper(b):'', ''    return leaf(b)'', ''def main():'', ''    helper(y)'', ''main()'']"

definition demo_cache :: "string \<Rightarrow> string list" where
  "demo_cache filename = (if filename = ''demo.py'' then demo_lines else [])"

definition demo_iter :: "string set \<Rightarrow> string list" where
  "demo_iter S = filter (\<lambda>n. n \<in> S) [''x'', ''__file__'', ''os'', ''__name__'', ''leaf'']"

definition demo_globals :: "(string \<times> pyval) list" where
  "demo_globals =
     [(''__name__'', PStr ''__main__''), (''os'', PStr ''<module os>''), (''x'', PInt 1),
      (''y'', PInt 2)]"

definition main_frame :: frame where
  "main_frame = Frame ''demo.py'' ''main'' [''helper'', ''y''] 9 [] demo_globals None"

definition helper_frame :: frame where
  "helper_frame =
     Frame ''demo.py'' ''helper'' [''leaf''] 7 [(''b'', PInt 2)] demo_globals (Some main_frame)"

definition leaf_frame :: frame where
  "leaf_frame =
     Frame ''demo.py'' ''leaf'' [''x''] 5 [(''y'', PStr ''a''), (''a'', PInt 2)] demo_globals
       (Some helper_frame)"

text \<open>Rich's normalisation on the style names that occur here: it expands the short forms.\<close>

definition demo_normalize :: "string \<Rightarrow> string" where
  "demo_normalize s =
     (if s = ''b'' then ''bold'' else if s = ''i'' then ''italic'' else s)"

definition demo_world :: world where
  "demo_world = module_world demo_cache Absent demo_iter demo_normalize"

text \<open>
  A session stopped in \<^verbatim>\<open>leaf\<close>. Its evaluator knows the name \<^verbatim>\<open>x\<close>; \<^verbatim>\<open>d[k]\<close> raises
  \<^verbatim>\<open>KeyError\<close> for the missing key \<^verbatim>\<open>[/]\<close>, the two calls of \<^verbatim>\<open>exit\<close> raise
  \<^verbatim>\<open>SystemExit\<close>, and any other name is undefined. And a file with two long lines.
\<close>

definition demo_getval :: "string \<Rightarrow> base_exn + pyval" where
  "demo_getval expr =
     (if expr = ''x'' then Inr (PInt 1)
      else if expr = ''d[k]'' then Inl (Exception (KeyError ''[/]''))
      else if expr = ''exit()'' \<or> expr = ''sys.exit()'' then Inl SystemExit
      else Inl (Exception (OtherException ''NameError'' (''name '' @ expr @ '' is not defined''))))"

definition demo_session :: session where
  "demo_session =
     \<lparr>show_locals = PBool True, context_lines = PInt 3, prompt = '' (nicerpdb) > '',
      config = DEFAULT_CONFIG, curframe = Some leaf_frame, getval = demo_getval\<rparr>"

definition long_lines :: "string list" where
  "long_lines =
     [replicate 100 CHR ''a'' @ [CHR 0x0A], ''    '' @ replicate 100 CHR ''b'' @ [CHR 0x0A]]"

text \<open>A configuration file that sets one known and one unknown key.\<close>

definition demo_config :: dict where
  "demo_config = [''context_lines'' \<mapsto> PInt 5, ''theme'' \<mapsto> PStr ''dark'']"

definition demo_config_world :: world where
  "demo_config_world = module_world demo_cache (Parsed demo_config) demo_iter demo_normalize"

text \<open>A configuration file that does not parse.\<close>

definition demo_broken_world :: world where
  "demo_broken_world =
     module_world demo_cache (Broken (TOMLDecodeError ''Invalid statement (at line 1, column 1)''))
       demo_iter demo_normalize"


text \<open>A configuration file that switches the stack off.\<close>

definition quiet_config_world :: world where
  "quiet_config_world =
     module_world demo_cache (Parsed [''show_stack'' \<mapsto> PBool False]) demo_iter demo_normalize"


text \<open>
  The sessions the constructor builds from these files: with no arguments under the file
  that switches the stack off, and with both arguments under the file that sets the
  context to 5.
\<close>

definition quiet_session :: session where
  "quiet_session =
     \<lparr>show_locals = PBool True, context_lines = PInt 3, prompt = '' (nicerpdb) > '',
      config = 1, curframe = None, getval = demo_getval\<rparr>"

definition wide_session :: session where
  "wide_session =
     \<lparr>show_locals = PBool False, context_lines = PInt 20, prompt = '' (nicerpdb) > '',
      config = 1, curframe = None, getval = demo_getval\<rparr>"

section \<open>What the console accepts\<close>

lemma console_print_object:
  "console_print (Panel syn title expand) w =
     (Inr (), w\<lparr>trace := trace w @ [Print (Panel syn title expand)]\<rparr>)"
  "console_print (TableR tbl) w = (Inr (), w\<lparr>trace := trace w @ [Print (TableR tbl)]\<rparr>)"
  "console_print (Pretty v n) w = (Inr (), w\<lparr>trace := trace w @ [Print (Pretty v n)]\<rparr>)"
  "console_print (Traceback e) w = (Inr (), w\<lparr>trace := trace w @ [Print (Traceback e)]\<rparr>)"
  by (simp_all add: console_print_def emit_def)

lemma console_print_markup:
  "console_print (Markup s) w =
     (case markup_error (style_normalize w) s of
        Some msg \<Rightarrow> (Inl (Exception (MarkupError msg)), w)
      | None \<Rightarrow> (Inr (), w\<lparr>trace := trace w @ [Print (Markup s)]\<rparr>))"
  by (simp add: console_print_def emit_def split: option.split)

lemma scan_constants:
  "scan_tags 0 0 ''[yellow]Warning: error reading ~/.nicerpdb.toml[/]''
     = [(0, ''yellow''), (47, ''/'')]"
  "scan_tags 0 0 ''[bold magenta]Debugger stopped[/bold magenta]''
     = [(0, ''bold magenta''), (30, ''/bold magenta'')]"
  "scan_tags 0 0 ''[italic]Usage: p <expr>[/]'' = [(0, ''italic''), (23, ''/'')]"
  "strip ''bold magenta'' = ''bold magenta''"
  by code_simp+

lemma strip_empty: "strip [] = []"
  by (simp add: strip_def)

lemma constant_markup:
  "markup_error style_norm ''[yellow]Warning: error reading ~/.nicerpdb.toml[/]'' = None"
  "markup_error style_norm ''[bold magenta]Debugger stopped[/bold magenta]'' = None"
  "markup_error style_norm ''[italic]Usage: p <expr>[/]'' = None"
  unfolding markup_error_def scan_constants
  by (simp_all add: Let_def strip_empty scan_constants(4))

lemma console_constants:
  "console_print config_warning w = (Inr (), w\<lparr>trace := trace w @ [Print config_warning]\<rparr>)"
  "console_rule stop_banner w = (Inr (), w\<lparr>trace := trace w @ [Rule stop_banner]\<rparr>)"
  "console_print (Markup ''[italic]Usage: p <expr>[/]'') w =
     (Inr (), w\<lparr>trace := trace w @ [Print (Markup ''[italic]Usage: p <expr>[/]'')]\<rparr>)"
  by (simp_all add: console_print_markup console_rule_def emit_def config_warning_def
      stop_banner_def constant_markup)

section \<open>Properties of the source renderer\<close>

lemma py_slice_window:
  assumes "0 \<le> a" and "a \<le> b" and "b \<le> int (length xs)"
  shows "py_slice xs a b = map (\<lambda>n. xs ! nat (n - 1)) [a + 1 .. b]"
proof (rule nth_equalityI)
  show "length (py_slice xs a b) = length (map (\<lambda>n. xs ! nat (n - 1)) [a + 1 .. b])"
    using assms by (simp add: py_slice_def Let_def)
next
  fix i
  assume "i < length (py_slice xs a b)"
  then have i: "int i < b - a"
    using assms by (simp add: py_slice_def Let_def)
  have "py_slice xs a b ! i = xs ! (nat a + i)"
    using assms i by (simp add: py_slice_def Let_def)
  moreover have "[a + 1 .. b] ! i = a + 1 + int i"
    using i by simp
  moreover have "nat (a + 1 + int i - 1) = nat a + i"
    using assms by simp
  ultimately show "py_slice xs a b ! i = map (\<lambda>n. xs ! nat (n - 1)) [a + 1 .. b] ! i"
    using i by simp
qed




section \<open>What the renders raise and change\<close>


lemma render_source_block_heap:
  assumes "render_source_block filename lineno context w = (r, w1)"
  shows "heap w1 = heap w \<and> style_normalize w1 = style_normalize w
         \<and> linecache w1 = linecache w \<and> set_iter w1 = set_iter w"
  using assms
  by (auto simp: render_source_block_def py_bind_def getlines_def int_sub_def int_add_def
      py_return_def py_raise_def console_print_markup console_print_object Let_def
      split: if_splits option.splits)

lemma render_vars_returns: "\<exists>w1. render_vars fr w = (Inr (), w1)"
  by (simp add: render_vars_def Let_def py_seq_def py_bind_def console_print_object)

lemma render_vars_heap:
  assumes "render_vars fr w = (r, w1)"
  shows "heap w1 = heap w"
  using assms
  by (auto simp: render_vars_def Let_def py_seq_def py_bind_def console_print_object)


lemma show_stack_enabled_run:
  "show_stack_enabled self w =
     (Inr (truthy (case heap w (config self) ''show_stack'' of
                     None \<Rightarrow> PBool True | Some v \<Rightarrow> v)), w)"
  by (simp add: show_stack_enabled_def py_bind_def py_return_def dict_get_def
      split: option.split)


lemma odd_name_notices:
  "markup_error demo_normalize ''[italic]Cannot read source from a[/b].py[/]''
     = Some (no_open_tag ''/b'' 33)"
  "markup_error demo_normalize ''[italic]Cannot read file a[/b].py[/]''
     = Some (no_open_tag ''/b'' 26)"
  by code_simp+

lemma odd_name_renders:
  assumes "linecache w ''a[/b].py'' = []" and "style_normalize w = demo_normalize"
  shows "render_source_block ''a[/b].py'' lineno context w =
           (Inl (Exception (MarkupError (no_open_tag ''/b'' 33))), w)"
    and "render_full_file ''a[/b].py'' lineno w =
           (Inl (Exception (MarkupError (no_open_tag ''/b'' 26))), w)"
  using assms odd_name_notices
  by (simp_all add: render_source_block_def render_full_file_def py_bind_def getlines_def
      console_print_markup)

section \<open>The fallback notice\<close>

lemma missing_file_notice_if_markup_parses:
  assumes "linecache w filename = []"
    and "markup_error (style_normalize w)
           (''[italic]Cannot read source from '' @ filename @ ''[/]'') = None"
  shows "render_source_block filename lineno context w =
           (Inr (),
            w\<lparr>trace := trace w @
              [Print (Markup (''[italic]Cannot read source from '' @ filename @ ''[/]''))]\<rparr>)"
  using assms
  by (simp add: render_source_block_def py_bind_def getlines_def console_print_markup)

text \<open>
  C4. Both renders paste the file name as it is into the markup of their fallback
  notice. For the missing file \<^verbatim>\<open>a[/b].py\<close> the notice holds the closing tag \<^verbatim>\<open>[/b]\<close>,
  which matches no open tag: the windowed render and the full-file render both raise
  \<^verbatim>\<open>MarkupError\<close> and print nothing, where the claim has them print the notice and
  return.
\<close>

theorem render_missing_file_markup_error:
  "linecache demo_world ''a[/b].py'' = []
   \<and> render_source_block ''a[/b].py'' 5 (PInt 3) demo_world =
       (Inl (Exception (MarkupError (no_open_tag ''/b'' 33))), demo_world)
   \<and> render_full_file ''a[/b].py'' 5 demo_world =
       (Inl (Exception (MarkupError (no_open_tag ''/b'' 26))), demo_world)
   \<and> no_open_tag ''/b'' 33 =
       ''closing tag '' @ [CHR 0x27] @ ''[/b]'' @ [CHR 0x27] @ '' at position 33 doesn''
         @ [CHR 0x27] @ ''t match any open tag''"
proof -
  have cache: "linecache demo_world ''a[/b].py'' = []"
    and norm: "style_normalize demo_world = demo_normalize"
    by (simp_all add: demo_world_def module_world_def demo_cache_def)
  have windowed: "render_source_block ''a[/b].py'' 5 (PInt 3) demo_world =
       (Inl (Exception (MarkupError (no_open_tag ''/b'' 33))), demo_world)"
    using cache norm by (rule odd_name_renders(1))
  have full: "render_full_file ''a[/b].py'' 5 demo_world =
       (Inl (Exception (MarkupError (no_open_tag ''/b'' 26))), demo_world)"
    using cache norm by (rule odd_name_renders(2))
  have msg: "no_open_tag ''/b'' 33 =
       ''closing tag '' @ [CHR 0x27] @ ''[/b]'' @ [CHR 0x27] @ '' at position 33 doesn''
         @ [CHR 0x27] @ ''t match any open tag''"
    by code_simp
  from cache windowed full msg show ?thesis
    by blast
qed

section \<open>Properties of the stack renderer\<close>

lemma py_slice_numbered:
  assumes "0 \<le> a" and "0 \<le> b" and "b \<le> int (length xs)"
  shows "py_slice xs a b = map (\<lambda>n. xs ! nat (n - 1)) [a + 1 .. b]"
proof (cases "a \<le> b")
  case True
  with assms show ?thesis
    by (intro py_slice_window) auto
next
  case False
  with assms show ?thesis
    by (simp add: py_slice_def Let_def)
qed

lemma py_slice_prefix: "0 \<le> k \<Longrightarrow> py_slice xs 0 k = take (nat k) xs"
  by (simp add: py_slice_def Let_def min_def)









text \<open>
  C7. The context excerpt of a stack row (its fourth cell) is never longer than 120
  characters; it is empty for a frame whose file cannot be read; and for a readable file
  and a line number \<open>ln \<ge> 1\<close> it is built from the at most three lines numbered
  \<open>ln - 1\<close> to \<open>ln + 1\<close>, each stripped of surrounding whitespace and joined with single
  spaces: that raw excerpt itself when it has at most 120 characters, otherwise its first
  117 characters followed by three dots.
\<close>

theorem excerpt_bounded:
  "length (excerpt src ln) \<le> 120
   \<and> (src = [] \<longrightarrow> excerpt src ln = '''')
   \<and> (src \<noteq> [] \<and> 1 \<le> ln \<longrightarrow>
        length (excerpt_lines src ln) \<le> 3
        \<and> (length (raw_excerpt src ln) \<le> 120 \<longrightarrow> excerpt src ln = raw_excerpt src ln)
        \<and> (120 < length (raw_excerpt src ln) \<longrightarrow>
             excerpt src ln = take 117 (raw_excerpt src ln) @ ''...''))
   \<and> stack_row cache (i, fr) ! 3 = CStr (excerpt (cache (co_filename fr)) (f_lineno fr))"
proof -
  have bound: "length (excerpt src ln) \<le> 120"
    by (simp add: excerpt_def Let_def py_slice_prefix)
  have unread: "src = [] \<longrightarrow> excerpt src ln = ''''"
    by (simp add: excerpt_def)
  have cell: "stack_row cache (i, fr) ! 3 = CStr (excerpt (cache (co_filename fr)) (f_lineno fr))"
    by (simp add: stack_row_def Let_def)
  have readable: "length (excerpt_lines src ln) \<le> 3
        \<and> (length (raw_excerpt src ln) \<le> 120 \<longrightarrow> excerpt src ln = raw_excerpt src ln)
        \<and> (120 < length (raw_excerpt src ln) \<longrightarrow>
             excerpt src ln = take 117 (raw_excerpt src ln) @ ''...'')"
    if ne: "src \<noteq> []" and ln: "1 \<le> ln"
  proof -
    have a: "max 0 (ln - 2) + 1 = max 1 (ln - 1)"
      by simp
    have "py_slice src (max 0 (ln - 2)) (min (int (length src)) (ln + 1))
            = map (\<lambda>n. src ! nat (n - 1))
                [max 0 (ln - 2) + 1 .. min (int (length src)) (ln + 1)]"
      using ln by (intro py_slice_numbered) auto
    then have sl: "py_slice src (max 0 (ln - 2)) (min (int (length src)) (ln + 1))
            = excerpt_lines src ln"
      unfolding a by (simp add: excerpt_lines_def)
    have three: "length (excerpt_lines src ln) \<le> 3"
      using ln by (simp add: excerpt_lines_def)
    have ex: "excerpt src ln =
        (if 120 < length (raw_excerpt src ln) then take 117 (raw_excerpt src ln) @ ''...''
         else raw_excerpt src ln)"
      using ne by (simp add: excerpt_def Let_def sl raw_excerpt_def py_slice_prefix)
    from three ex show ?thesis
      by simp
  qed
  from bound unread cell readable show ?thesis
    by blast
qed

lemma long_excerpt:
  "raw_excerpt long_lines 1 = replicate 100 CHR ''a'' @ '' '' @ replicate 100 CHR ''b''"
  "excerpt long_lines 1 = replicate 100 CHR ''a'' @ '' '' @ replicate 16 CHR ''b'' @ ''...''"
  by code_simp+

theorem excerpt_bounded_witness:
  "long_lines \<noteq> [] \<and> (1::int) \<le> 1
   \<and> 120 < length (raw_excerpt long_lines 1)
   \<and> length (excerpt long_lines 1) = 120
   \<and> excerpt long_lines 1 = take 117 (raw_excerpt long_lines 1) @ ''...''
   \<and> excerpt long_lines 1 = replicate 100 CHR ''a'' @ '' '' @ replicate 16 CHR ''b'' @ ''...''
   \<and> excerpt [] 5 = ''''
   \<and> stack_row demo_cache (3, leaf_frame) ! 3
       = CStr (excerpt (demo_cache (co_filename leaf_frame)) (f_lineno leaf_frame))"
proof -
  have ne: "long_lines \<noteq> []"
    by (simp add: long_lines_def)
  have raw: "120 < length (raw_excerpt long_lines 1)"
    by (simp add: long_excerpt)
  from excerpt_bounded [of long_lines 1 demo_cache 3 leaf_frame] excerpt_bounded [of "[]" 5]
  show ?thesis
    using ne raw by (simp add: long_excerpt(2))
qed

section \<open>Properties of the variable renderer\<close>

text \<open>
  C8. For every frame (its local names distinct, as in any dictionary) and every iteration
  order of the name set, the variable render prints the globals table and then the locals
  table. The locals table has one row per local binding, each binding in a row, the names
  in sorted order. The rows of the globals table are exactly the global bindings whose
  name is in the frame's referenced names or is \<^verbatim>\<open>__name__\<close> or \<^verbatim>\<open>__file__\<close>, each once.
\<close>

theorem render_vars_tables:
  assumes "names = set (co_names fr) \<union> {''__name__'', ''__file__''}"
    and "set (set_iter w names) = names" and "distinct (set_iter w names)"
    and "distinct (map fst (f_locals fr))"
    and "lrows = map (\<lambda>(k, v). [CStr k, CPretty v 150]) (sort_key fst (f_locals fr))"
    and "grows = map (\<lambda>name. [CStr name, CPretty (the (map_of (f_globals fr) name)) 150])
                   (filter (\<lambda>name. map_of (f_globals fr) name \<noteq> None) (set_iter w names))"
  shows "render_vars fr w =
           (Inr (),
            w\<lparr>trace := trace w @
              [Print (TableR (Table ''Globals (selected)'' True
                 [Column ''Name'' None None, Column ''Value'' None None] grows)),
               Print (TableR (Table ''Locals'' True
                 [Column ''Name'' None (Some ''bold''), Column ''Value'' None None] lrows))]\<rparr>)
         \<and> set lrows = {[CStr k, CPretty v 150] | k v. (k, v) \<in> set (f_locals fr)}
         \<and> length lrows = length (f_locals fr)
         \<and> map (\<lambda>r. r ! 0) lrows = map CStr (map fst (sort_key fst (f_locals fr)))
         \<and> sorted (map fst (sort_key fst (f_locals fr)))
         \<and> distinct (map fst (sort_key fst (f_locals fr)))
         \<and> set grows = {[CStr name, CPretty v 150] | name v.
               name \<in> names \<and> map_of (f_globals fr) name = Some v}
         \<and> distinct grows"
proof -
  have run: "render_vars fr w =
           (Inr (),
            w\<lparr>trace := trace w @
              [Print (TableR (Table ''Globals (selected)'' True
                 [Column ''Name'' None None, Column ''Value'' None None] grows)),
               Print (TableR (Table ''Locals'' True
                 [Column ''Name'' None (Some ''bold''), Column ''Value'' None None] lrows))]\<rparr>)"
    unfolding assms(5,6) assms(1)
    by (simp add: render_vars_def Let_def py_seq_def py_bind_def console_print_object)
  have lset: "set lrows = {[CStr k, CPretty v 150] | k v. (k, v) \<in> set (f_locals fr)}"
    unfolding assms(5) by (auto simp: image_iff)
  have llen: "length lrows = length (f_locals fr)"
    unfolding assms(5) by simp
  have lnames: "map (\<lambda>r. r ! 0) lrows = map CStr (map fst (sort_key fst (f_locals fr)))"
    unfolding assms(5) by (simp add: case_prod_beta)
  have lsorted: "sorted (map fst (sort_key fst (f_locals fr)))"
    by (rule sorted_sort_key)
  have ldistinct: "distinct (map fst (sort_key fst (f_locals fr)))"
    using assms(4) by (simp add: distinct_map)
  have gset: "set grows = {[CStr name, CPretty v 150] | name v.
               name \<in> names \<and> map_of (f_globals fr) name = Some v}"
    unfolding assms(6) using assms(2) by (auto simp: image_iff)
  have gdistinct: "distinct grows"
    unfolding assms(6) using assms(3) by (simp add: distinct_map inj_on_def)
  from run lset llen lnames lsorted ldistinct gset gdistinct show ?thesis
    by blast
qed

lemma demo_names:
  "set (demo_iter (set (co_names leaf_frame) \<union> {''__name__'', ''__file__''}))
     = set (co_names leaf_frame) \<union> {''__name__'', ''__file__''}"
  "distinct (demo_iter (set (co_names leaf_frame) \<union> {''__name__'', ''__file__''}))"
  "distinct (map fst (f_locals leaf_frame))"
  by (auto simp: demo_iter_def leaf_frame_def)

lemma demo_var_rows:
  "map (\<lambda>(k, v). [CStr k, CPretty v 150]) (sort_key fst (f_locals leaf_frame))
     = [[CStr ''a'', CPretty (PInt 2) 150], [CStr ''y'', CPretty (PStr ''a'') 150]]"
  "map (\<lambda>name. [CStr name, CPretty (the (map_of (f_globals leaf_frame) name)) 150])
     (filter (\<lambda>name. map_of (f_globals leaf_frame) name \<noteq> None)
        (demo_iter (set (co_names leaf_frame) \<union> {''__name__'', ''__file__''})))
     = [[CStr ''x'', CPretty (PInt 1) 150], [CStr ''__name__'', CPretty (PStr ''__main__'') 150]]"
  by code_simp+

theorem render_vars_tables_witness:
  "set (set_iter demo_world (set (co_names leaf_frame) \<union> {''__name__'', ''__file__''}))
     = set (co_names leaf_frame) \<union> {''__name__'', ''__file__''}
   \<and> distinct (set_iter demo_world (set (co_names leaf_frame) \<union> {''__name__'', ''__file__''}))
   \<and> distinct (map fst (f_locals leaf_frame))
   \<and> render_vars leaf_frame demo_world =
       (Inr (),
        demo_world\<lparr>trace :=
          [Print (TableR (Table ''Globals (selected)'' True
             [Column ''Name'' None None, Column ''Value'' None None]
             [[CStr ''x'', CPretty (PInt 1) 150],
              [CStr ''__name__'', CPretty (PStr ''__main__'') 150]])),
           Print (TableR (Table ''Locals'' True
             [Column ''Name'' None (Some ''bold''), Column ''Value'' None None]
             [[CStr ''a'', CPretty (PInt 2) 150], [CStr ''y'', CPretty (PStr ''a'') 150]]))]\<rparr>)"
proof -
  have iter: "set_iter demo_world = demo_iter" and empty: "trace demo_world = []"
    by (simp_all add: demo_world_def module_world_def)
  note inst = render_vars_tables [OF refl _ _ demo_names(3) refl refl, of demo_world,
      unfolded iter, OF demo_names(1,2), unfolded demo_var_rows empty]
  from inst demo_names show ?thesis
    by (simp add: iter)
qed

section \<open>Properties of the configuration loader\<close>

lemma load_config_run:
  "load_config w =
     (Inr (next_free w),
      (case config_file w of
         Absent \<Rightarrow>
           w\<lparr>heap := (heap w)(next_free w := heap w DEFAULT_CONFIG),
             next_free := Suc (next_free w)\<rparr>
       | Broken e \<Rightarrow>
           w\<lparr>heap := (heap w)(next_free w := heap w DEFAULT_CONFIG),
             next_free := Suc (next_free w),
             trace := trace w @ [Print config_warning]\<rparr>
       | Parsed loaded \<Rightarrow>
           w\<lparr>heap := (heap w)(next_free w := heap w DEFAULT_CONFIG ++ loaded),
             next_free := Suc (next_free w)\<rparr>))"
  by (cases "config_file w")
    (simp_all add: load_config_def py_bind_def py_seq_def py_try_def py_return_def
      dict_copy_def dict_update_def path_exists_def open_and_load_def console_constants)

text \<open>
  C5. \<^verbatim>\<open>load_config\<close> always returns (the address of a new dictionary) and never raises.
  With no configuration file the new dictionary is a copy of the defaults and nothing is
  printed; with a file that cannot be read or parsed it is a copy of the defaults and
  exactly one warning is printed; with a file that parses, every key of the parsed table,
  whatever it is, is merged over the copy of the defaults, and nothing is printed.
\<close>

theorem load_config_cases:
  "fst (load_config w) = Inr (next_free w)
   \<and> (config_file w = Absent \<longrightarrow>
        snd (load_config w) =
          w\<lparr>heap := (heap w)(next_free w := heap w DEFAULT_CONFIG),
            next_free := Suc (next_free w)\<rparr>)
   \<and> (\<forall>e. config_file w = Broken e \<longrightarrow>
        snd (load_config w) =
          w\<lparr>heap := (heap w)(next_free w := heap w DEFAULT_CONFIG),
            next_free := Suc (next_free w),
            trace := trace w @ [Print config_warning]\<rparr>)
   \<and> (\<forall>loaded. config_file w = Parsed loaded \<longrightarrow>
        snd (load_config w) =
          w\<lparr>heap := (heap w)(next_free w := heap w DEFAULT_CONFIG ++ loaded),
            next_free := Suc (next_free w)\<rparr>)"
  by (simp add: load_config_run)

lemma module_world_simps:
  "heap (module_world c f i n) DEFAULT_CONFIG = builtin_defaults"
  "next_free (module_world c f i n) = 1"
  "trace (module_world c f i n) = []"
  "config_file (module_world c f i n) = f"
  by (simp_all add: module_world_def)

theorem load_config_cases_witness:
  "config_file demo_world = Absent
   \<and> load_config demo_world =
       (Inr 1, demo_world\<lparr>heap := (heap demo_world)(1 := builtin_defaults), next_free := 2\<rparr>)
   \<and> config_file demo_broken_world =
       Broken (TOMLDecodeError ''Invalid statement (at line 1, column 1)'')
   \<and> load_config demo_broken_world =
       (Inr 1,
        demo_broken_world\<lparr>heap := (heap demo_broken_world)(1 := builtin_defaults),
          next_free := 2, trace := [Print config_warning]\<rparr>)
   \<and> config_file demo_config_world = Parsed demo_config
   \<and> load_config demo_config_world =
       (Inr 1,
        demo_config_world\<lparr>heap := (heap demo_config_world)
            (1 := [''context_lines'' \<mapsto> PInt 5, ''show_locals'' \<mapsto> PBool True,
                   ''show_stack'' \<mapsto> PBool True, ''theme'' \<mapsto> PStr ''dark'']),
          next_free := 2\<rparr>)"
proof -
  have merged: "builtin_defaults ++ demo_config =
      [''context_lines'' \<mapsto> PInt 5, ''show_locals'' \<mapsto> PBool True,
       ''show_stack'' \<mapsto> PBool True, ''theme'' \<mapsto> PStr ''dark'']"
    by (rule ext) (simp add: builtin_defaults_def demo_config_def map_add_def)
  have files: "config_file demo_world = Absent"
    "config_file demo_broken_world =
       Broken (TOMLDecodeError ''Invalid statement (at line 1, column 1)'')"
    "config_file demo_config_world = Parsed demo_config"
    by (simp_all add: demo_world_def demo_broken_world_def demo_config_world_def
        module_world_simps)
  from load_config_cases [of demo_world] load_config_cases [of demo_broken_world]
    load_config_cases [of demo_config_world]
  show ?thesis
    using files
    by (simp add: prod_eq_iff merged [symmetric])
      (simp add: demo_world_def demo_broken_world_def demo_config_world_def
        module_world_simps)
qed

text \<open>
  C10. Two calls of \<^verbatim>\<open>load_config\<close> in a row (the configuration file is the same for
  both) return two different new dictionaries with identical content, the second call
  leaves the first result as it was, and neither call changes the dictionary
  \<^verbatim>\<open>DEFAULT_CONFIG\<close>.
\<close>

theorem load_config_twice:
  assumes "DEFAULT_CONFIG < next_free w"
    and "load_config w = (r1, w1)"
    and "load_config w1 = (r2, w2)"
  shows "r1 = Inr (next_free w) \<and> r2 = Inr (next_free w1)
         \<and> next_free w \<noteq> next_free w1
         \<and> next_free w \<noteq> DEFAULT_CONFIG \<and> next_free w1 \<noteq> DEFAULT_CONFIG
         \<and> config_file w1 = config_file w
         \<and> heap w2 (next_free w1) = heap w2 (next_free w)
         \<and> heap w2 (next_free w) = heap w1 (next_free w)
         \<and> heap w1 DEFAULT_CONFIG = heap w DEFAULT_CONFIG
         \<and> heap w2 DEFAULT_CONFIG = heap w DEFAULT_CONFIG"
proof -
  have r1: "r1 = Inr (next_free w)" and w1: "w1 = snd (load_config w)"
    using assms(2) by (simp_all add: load_config_run)
  have r2: "r2 = Inr (next_free w1)" and w2: "w2 = snd (load_config w1)"
    using assms(3) by (simp_all add: load_config_run)
  have nf: "next_free w1 = Suc (next_free w)" and cf: "config_file w1 = config_file w"
    and d1: "heap w1 DEFAULT_CONFIG = heap w DEFAULT_CONFIG"
    unfolding w1 using assms(1)
    by (cases "config_file w"; simp add: load_config_run)+
  have d2: "heap w2 DEFAULT_CONFIG = heap w1 DEFAULT_CONFIG"
    and keep: "heap w2 (next_free w) = heap w1 (next_free w)"
    unfolding w2 using assms(1) nf
    by (cases "config_file w1"; simp add: load_config_run)+
  have first: "heap w1 (next_free w) =
      (case config_file w of Parsed loaded \<Rightarrow> heap w DEFAULT_CONFIG ++ loaded
       | _ \<Rightarrow> heap w DEFAULT_CONFIG)"
    unfolding w1 by (cases "config_file w"; simp add: load_config_run)
  have second: "heap w2 (next_free w1) =
      (case config_file w1 of Parsed loaded \<Rightarrow> heap w1 DEFAULT_CONFIG ++ loaded
       | _ \<Rightarrow> heap w1 DEFAULT_CONFIG)"
    unfolding w2 by (cases "config_file w1"; simp add: load_config_run)
  have same: "heap w2 (next_free w1) = heap w2 (next_free w)"
    unfolding keep first second cf d1 by (rule refl)
  from r1 r2 nf cf same keep d1 d2 assms(1) show ?thesis
    by simp
qed

theorem load_config_twice_witness:
  "DEFAULT_CONFIG < next_free demo_config_world
   \<and> fst (load_config demo_config_world) = Inr 1
   \<and> fst (load_config (snd (load_config demo_config_world))) = Inr 2
   \<and> heap (snd (load_config (snd (load_config demo_config_world)))) 2
       = heap (snd (load_config (snd (load_config demo_config_world)))) 1
   \<and> heap (snd (load_config (snd (load_config demo_config_world)))) 1
       = builtin_defaults ++ demo_config
   \<and> heap (snd (load_config (snd (load_config demo_config_world)))) DEFAULT_CONFIG
       = builtin_defaults"
proof -
  have alloc: "DEFAULT_CONFIG < next_free demo_config_world"
    by (simp add: demo_config_world_def module_world_simps DEFAULT_CONFIG_def)
  have first: "snd (load_config demo_config_world) =
      demo_config_world\<lparr>heap := (heap demo_config_world)(1 := builtin_defaults ++ demo_config),
        next_free := 2\<rparr>"
    by (simp add: load_config_run demo_config_world_def module_world_simps)
  note inst = load_config_twice [OF alloc prod.collapse [symmetric] prod.collapse [symmetric]]
  from inst alloc show ?thesis
    by (simp add: first) (simp add: demo_config_world_def module_world_simps)
qed

section \<open>Properties of the session controller\<close>

lemma stop_renders_decision:
  assumes "truthy (case heap w (config self) ''show_stack'' of
                     None \<Rightarrow> PBool True | Some v \<Rightarrow> v) = decision"
  shows "stop_renders self frame w = stop_steps self decision frame w"
proof (cases frame)
  case None
  then show ?thesis
    by (simp add: stop_renders_def stop_steps_def)
next
  case (Some fr)
  obtain r wa where src: "render_source_block (co_filename fr) (f_lineno fr)
      (context_lines self) w = (r, wa)"
    by (cases "render_source_block (co_filename fr) (f_lineno fr) (context_lines self) w")
  then have ha: "heap wa = heap w"
    using render_source_block_heap by blast
  obtain wv where vars: "render_vars fr wa = (Inr (), wv)"
    using render_vars_returns by blast
  then have hv: "heap wv = heap w"
    using render_vars_heap ha by metis
  show ?thesis
  proof (cases r)
    case (Inl b)
    with Some src show ?thesis
      by (simp add: stop_renders_def stop_steps_def py_seq_def py_bind_def)
  next
    case (Inr u)
    with Some src vars ha hv assms show ?thesis
      by (simp add: stop_renders_def stop_steps_def py_seq_def py_bind_def py_return_def
          show_stack_enabled_run)
  qed
qed

lemma interaction_decision:
  assumes "truthy (case heap w (config self) ''show_stack'' of
                     None \<Rightarrow> PBool True | Some v \<Rightarrow> v) = decision"
  shows "interaction self frame tb w =
           py_seq (console_rule stop_banner)
             (py_seq (py_try (stop_steps self decision frame) (\<lambda>e. console_print (Traceback e)))
                (super_interaction frame tb)) w"
proof -
  have "stop_renders self frame (w\<lparr>trace := trace w @ [Rule stop_banner]\<rparr>) =
      stop_steps self decision frame (w\<lparr>trace := trace w @ [Rule stop_banner]\<rparr>)"
    using assms by (intro stop_renders_decision) simp
  then show ?thesis
    by (simp add: interaction_def py_seq_def py_bind_def py_try_def console_constants)
qed

text \<open>
  C9. For a class whose \<^verbatim>\<open>config\<close> is the result of \<^verbatim>\<open>load_config\<close> (run while
  \<^verbatim>\<open>DEFAULT_CONFIG\<close> holds the built-in defaults), the constructor never raises, and the
  session's \<^verbatim>\<open>show_locals\<close> and \<^verbatim>\<open>context_lines\<close> are the explicit arguments when these
  are not \<^verbatim>\<open>None\<close>, otherwise the values of the configuration file, otherwise the
  built-in defaults. The \<^verbatim>\<open>show_stack\<close> decision taken at a stop is the truth value of the
  configuration's entry (the default when the file has none), whatever the constructor's
  arguments were: as long as the configuration dictionary is what \<^verbatim>\<open>load_config\<close> left,
  the renders of a stop, and the stop-entry operation as a whole, are the steps of the
  specification taken with exactly that decision.
\<close>

theorem init_resolves_options:
  assumes "heap w DEFAULT_CONFIG = builtin_defaults"
    and "load_config w = (Inr cfg, w')"
    and "s = \<lparr>show_locals = resolved sl (config_file w) ''show_locals'' (PBool True),
              context_lines = resolved cl (config_file w) ''context_lines'' (PInt 3),
              prompt = '' (nicerpdb) > '', config = cfg, curframe = None, getval = gv\<rparr>"
    and "decision = truthy (resolved PNone (config_file w) ''show_stack'' (PBool True))"
  shows "RichPdb_init cfg gv sl cl w' = (Inr s, w')
         \<and> show_stack_enabled s w' =
             (Inr (truthy (resolved PNone (config_file w) ''show_stack'' (PBool True))), w')
         \<and> (\<forall>w2. heap w2 cfg = heap w' cfg \<longrightarrow>
               stop_renders s frame w2 = stop_steps s decision frame w2)
         \<and> (\<forall>w2. heap w2 cfg = heap w' cfg \<longrightarrow>
               interaction s frame tb w2 =
                 py_seq (console_rule stop_banner)
                   (py_seq (py_try (stop_steps s decision frame)
                              (\<lambda>e. console_print (Traceback e)))
                      (super_interaction frame tb)) w2)"
proof -
  have cfg: "cfg = next_free w" and w': "w' = snd (load_config w)"
    using assms(2) by (simp_all add: load_config_run)
  have look: "heap w' cfg key =
      (case configured (config_file w) key of Some v \<Rightarrow> Some v | None \<Rightarrow> builtin_defaults key)"
    for key
    unfolding w' cfg using assms(1)
    by (cases "config_file w")
      (simp_all add: load_config_run configured_def map_add_def split: option.split)
  have sl: "heap w' cfg ''show_locals'' =
      Some (resolved PNone (config_file w) ''show_locals'' (PBool True))"
    and cl: "heap w' cfg ''context_lines'' =
      Some (resolved PNone (config_file w) ''context_lines'' (PInt 3))"
    and st: "heap w' cfg ''show_stack'' =
      Some (resolved PNone (config_file w) ''show_stack'' (PBool True))"
    by (simp_all add: look resolved_def builtin_defaults_def split: option.split)
  have init: "RichPdb_init cfg gv sl cl w' = (Inr s, w')"
    unfolding assms(3)
    by (simp add: RichPdb_init_def py_bind_def py_return_def dict_getitem_def sl cl
        resolved_def)
  have stack: "show_stack_enabled s w' =
      (Inr (truthy (resolved PNone (config_file w) ''show_stack'' (PBool True))), w')"
    unfolding assms(3)
    by (simp add: show_stack_enabled_def py_bind_def py_return_def dict_get_def st)
  have conf: "config s = cfg"
    unfolding assms(3) by simp
  have dec: "truthy (case heap w2 (config s) ''show_stack'' of
                       None \<Rightarrow> PBool True | Some v \<Rightarrow> v) = decision"
    if "heap w2 cfg = heap w' cfg" for w2
    using that by (simp add: conf st assms(4))
  have renders: "stop_renders s frame w2 = stop_steps s decision frame w2"
    if "heap w2 cfg = heap w' cfg" for w2
    using dec [OF that] by (rule stop_renders_decision)
  have whole: "interaction s frame tb w2 =
      py_seq (console_rule stop_banner)
        (py_seq (py_try (stop_steps s decision frame) (\<lambda>e. console_print (Traceback e)))
           (super_interaction frame tb)) w2"
    if "heap w2 cfg = heap w' cfg" for w2
    using dec [OF that] by (rule interaction_decision)
  from init stack renders whole show ?thesis
    by blast
qed

lemma stop_traces:
  "trace (snd (interaction quiet_session (Some leaf_frame) 7
       (snd (load_config quiet_config_world)))) =
     [Rule stop_banner,
      Print (Panel
        (Syntax (concat (map (\<lambda>s. s @ [CHR 0x0A])
            [''x = 1'', ''y = 2'', ''def leaf(a):'', ''    return a + x'',
             ''def helper(b):'', ''    return leaf(b)'', ''def main():'']))
           ''python'' True 2 {5} True)
        ''demo.py:5'' True),
      Print (TableR (Table ''Globals (selected)'' True
        [Column ''Name'' None None, Column ''Value'' None None]
        [[CStr ''x'', CPretty (PInt 1) 150],
         [CStr ''__name__'', CPretty (PStr ''__main__'') 150]])),
      Print (TableR (Table ''Locals'' True
        [Column ''Name'' None (Some ''bold''), Column ''Value'' None None]
        [[CStr ''a'', CPretty (PInt 2) 150], [CStr ''y'', CPretty (PStr ''a'') 150]])),
      SuperInteraction (Some leaf_frame) 7]"
  "trace (snd (interaction wide_session (Some leaf_frame) 7
       (snd (load_config demo_config_world)))) =
     [Rule stop_banner,
      Print (Panel (Syntax (concat demo_lines) ''python'' True 1 {5} True) ''demo.py:5'' True),
      Print (TableR (Table ''Stack (most recent last)'' True stack_columns [])),
      SuperInteraction (Some leaf_frame) 7]"
  by code_simp+

theorem init_resolves_options_witness:
  "heap demo_config_world DEFAULT_CONFIG = builtin_defaults
   \<and> fst (load_config demo_config_world) = Inr 1
   \<and> fst (RichPdb_init 1 demo_getval PNone PNone (snd (load_config demo_config_world)))
       = Inr \<lparr>show_locals = PBool True, context_lines = PInt 5,
              prompt = '' (nicerpdb) > '', config = 1, curframe = None, getval = demo_getval\<rparr>
   \<and> fst (RichPdb_init 1 demo_getval (PBool False) (PInt 20) (snd (load_config demo_config_world)))
       = Inr \<lparr>show_locals = PBool False, context_lines = PInt 20,
              prompt = '' (nicerpdb) > '', config = 1, curframe = None, getval = demo_getval\<rparr>
   \<and> fst (show_stack_enabled
         \<lparr>show_locals = PBool False, context_lines = PInt 20,
          prompt = '' (nicerpdb) > '', config = 1, curframe = None, getval = demo_getval\<rparr>
         (snd (load_config demo_config_world))) = Inr True
   \<and> stop_renders wide_session (Some leaf_frame) (snd (load_config demo_config_world))
       = stop_steps wide_session True (Some leaf_frame) (snd (load_config demo_config_world))
   \<and> trace (snd (interaction wide_session (Some leaf_frame) 7
         (snd (load_config demo_config_world)))) =
       [Rule stop_banner,
        Print (Panel (Syntax (concat demo_lines) ''python'' True 1 {5} True) ''demo.py:5'' True),
        Print (TableR (Table ''Stack (most recent last)'' True stack_columns [])),
        SuperInteraction (Some leaf_frame) 7]
   \<and> heap quiet_config_world DEFAULT_CONFIG = builtin_defaults
   \<and> fst (load_config quiet_config_world) = Inr 1
   \<and> fst (RichPdb_init 1 demo_getval PNone PNone (snd (load_config quiet_config_world)))
       = Inr quiet_session
   \<and> fst (show_stack_enabled quiet_session (snd (load_config quiet_config_world))) = Inr False
   \<and> stop_renders quiet_session (Some leaf_frame) (snd (load_config quiet_config_world))
       = stop_steps quiet_session False (Some leaf_frame) (snd (load_config quiet_config_world))
   \<and> trace (snd (interaction quiet_session (Some leaf_frame) 7
         (snd (load_config quiet_config_world)))) =
       [Rule stop_banner,
        Print (Panel
          (Syntax (concat (map (\<lambda>s. s @ [CHR 0x0A])
              [''x = 1'', ''y = 2'', ''def leaf(a):'', ''    return a + x'',
               ''def helper(b):'', ''    return leaf(b)'', ''def main():'']))
             ''python'' True 2 {5} True)
          ''demo.py:5'' True),
        Print (TableR (Table ''Globals (selected)'' True
          [Column ''Name'' None None, Column ''Value'' None None]
          [[CStr ''x'', CPretty (PInt 1) 150],
           [CStr ''__name__'', CPretty (PStr ''__main__'') 150]])),
        Print (TableR (Table ''Locals'' True
          [Column ''Name'' None (Some ''bold''), Column ''Value'' None None]
          [[CStr ''a'', CPretty (PInt 2) 150], [CStr ''y'', CPretty (PStr ''a'') 150]])),
        SuperInteraction (Some leaf_frame) 7]"
proof -
  have intact: "heap demo_config_world DEFAULT_CONFIG = builtin_defaults"
    "heap quiet_config_world DEFAULT_CONFIG = builtin_defaults"
    by (simp_all add: demo_config_world_def quiet_config_world_def module_world_simps)
  have load: "load_config demo_config_world = (Inr 1, snd (load_config demo_config_world))"
    "load_config quiet_config_world = (Inr 1, snd (load_config quiet_config_world))"
    by (simp_all add: load_config_run demo_config_world_def quiet_config_world_def
        module_world_simps)
  have first: "fst (load_config demo_config_world) = Inr 1"
    "fst (load_config quiet_config_world) = Inr 1"
    by (simp_all add: load_config_run demo_config_world_def quiet_config_world_def
        module_world_simps)
  have cfile: "config_file demo_config_world = Parsed demo_config"
    "config_file quiet_config_world = Parsed [''show_stack'' \<mapsto> PBool False]"
    by (simp_all add: demo_config_world_def quiet_config_world_def module_world_simps)
  have res: "resolved PNone (Parsed demo_config) ''show_locals'' (PBool True) = PBool True"
    "resolved PNone (Parsed demo_config) ''context_lines'' (PInt 3) = PInt 5"
    "resolved (PBool False) (Parsed demo_config) ''show_locals'' (PBool True) = PBool False"
    "resolved (PInt 20) (Parsed demo_config) ''context_lines'' (PInt 3) = PInt 20"
    "resolved PNone (Parsed demo_config) ''show_stack'' (PBool True) = PBool True"
    "resolved PNone (Parsed [''show_stack'' \<mapsto> PBool False]) ''show_locals'' (PBool True)
       = PBool True"
    "resolved PNone (Parsed [''show_stack'' \<mapsto> PBool False]) ''context_lines'' (PInt 3)
       = PInt 3"
    "resolved PNone (Parsed [''show_stack'' \<mapsto> PBool False]) ''show_stack'' (PBool True)
       = PBool False"
    by (simp_all add: resolved_def configured_def demo_config_def)
  note a = init_resolves_options [where sl = PNone and cl = PNone and gv = demo_getval
      and frame = None and tb = 7,
      OF intact(1) load(1) refl refl, unfolded cfile res]
  note b = init_resolves_options [where sl = "PBool False" and cl = "PInt 20"
      and gv = demo_getval and frame = "Some leaf_frame" and tb = 7,
      OF intact(1) load(1) refl refl, unfolded cfile res]
  note c = init_resolves_options [where sl = PNone and cl = PNone and gv = demo_getval
      and frame = "Some leaf_frame" and tb = 7,
      OF intact(2) load(2) refl refl, unfolded cfile res]
  have b': "stop_renders wide_session (Some leaf_frame) (snd (load_config demo_config_world))
       = stop_steps wide_session True (Some leaf_frame) (snd (load_config demo_config_world))"
    using b by (simp add: wide_session_def)
  have c': "fst (RichPdb_init 1 demo_getval PNone PNone (snd (load_config quiet_config_world)))
       = Inr quiet_session"
    "fst (show_stack_enabled quiet_session (snd (load_config quiet_config_world))) = Inr False"
    "stop_renders quiet_session (Some leaf_frame) (snd (load_config quiet_config_world))
       = stop_steps quiet_session False (Some leaf_frame) (snd (load_config quiet_config_world))"
    using c by (simp_all add: quiet_session_def)
  from a b intact first b' c' stop_traces show ?thesis
    by simp
qed

section \<open>The stop-entry operation\<close>






section \<open>The command overrides\<close>

lemma do_p_run:
  "do_p self arg w =
     (if strip arg = [] then
        (Inr (), w\<lparr>trace := trace w @ [Print (Markup ''[italic]Usage: p <expr>[/]'')]\<rparr>)
      else case getval self arg of
        Inl (Exception e) \<Rightarrow>
          console_print (Markup (''[red]Error:[/] '' @ str_exn e))
            (w\<lparr>trace := trace w @ [SuperGetval arg]\<rparr>)
      | Inl SystemExit \<Rightarrow> (Inl SystemExit, w\<lparr>trace := trace w @ [SuperGetval arg]\<rparr>)
      | Inl KeyboardInterrupt \<Rightarrow>
          (Inl KeyboardInterrupt, w\<lparr>trace := trace w @ [SuperGetval arg]\<rparr>)
      | Inr v \<Rightarrow> (Inr (), w\<lparr>trace := trace w @ [SuperGetval arg, Print (Pretty v 300)]\<rparr>))"
  by (simp add: do_p_def py_try_def py_bind_def super_getval_def console_constants
      console_print_object split: sum.split base_exn.split)

lemma default_run:
  "RichPdb_default self line w =
     (if strip line = [] then (Inr (PBool False), w)
      else case getval self (strip line) of
        Inl (Exception e) \<Rightarrow>
          (Inr PNone,
           w\<lparr>trace := trace w @ [SuperGetval (strip line), SuperDefault (strip line)]\<rparr>)
      | Inl SystemExit \<Rightarrow>
          (Inl SystemExit, w\<lparr>trace := trace w @ [SuperGetval (strip line)]\<rparr>)
      | Inl KeyboardInterrupt \<Rightarrow>
          (Inl KeyboardInterrupt, w\<lparr>trace := trace w @ [SuperGetval (strip line)]\<rparr>)
      | Inr v \<Rightarrow>
          (Inr (PBool False),
           w\<lparr>trace := trace w @ [SuperGetval (strip line), Print (Pretty v 300)]\<rparr>))"
  by (simp add: RichPdb_default_def Let_def py_try_def py_bind_def py_seq_def
      py_return_def super_getval_def super_default_def console_print_object emit_def
      split: sum.split base_exn.split)

lemma error_line_markup:
  "markup_error demo_normalize (''[red]Error:[/] '' @ str_exn (KeyError ''[/]''))
     = Some (nothing_to_close 16)"
  "strip ''d[k]'' = ''d[k]''" "strip ''exit()'' = ''exit()''"
  "strip ''sys.exit()'' = ''sys.exit()''"
  by code_simp+

lemma broken_error_line:
  assumes "style_normalize w = demo_normalize"
  shows "console_print (Markup (''[red]Error:[/] '' @ str_exn (KeyError ''[/]''))) w =
           (Inl (Exception (MarkupError (nothing_to_close 16))), w)"
  unfolding console_print_markup assms error_line_markup(1) by simp

text \<open>
  C6. The error line of \<^verbatim>\<open>p\<close> pastes the exception's message as it is into markup. For
  \<^verbatim>\<open>p d[k]\<close>, whose evaluation raises \<^verbatim>\<open>KeyError\<close> for the key \<^verbatim>\<open>[/]\<close>, the message holds a
  closing tag with nothing left to close: \<^verbatim>\<open>MarkupError\<close> is raised inside the handler
  and leaves \<^verbatim>\<open>do_p\<close>, and no error line is printed, where the claim has the line printed
  and nothing propagated. A \<^verbatim>\<open>SystemExit\<close> raised by the evaluation passes the handlers
  of \<^verbatim>\<open>do_p\<close> and of the bare-line default too.
\<close>

theorem do_p_error_line_raises:
  "getval demo_session ''d[k]'' = Inl (Exception (KeyError ''[/]''))
   \<and> do_p demo_session ''d[k]'' demo_world =
       (Inl (Exception (MarkupError (nothing_to_close 16))),
        demo_world\<lparr>trace := [SuperGetval ''d[k]'']\<rparr>)
   \<and> nothing_to_close 16 =
       ''closing tag '' @ [CHR 0x27] @ ''[/]'' @ [CHR 0x27]
         @ '' at position 16 has nothing to close''
   \<and> getval demo_session ''exit()'' = Inl SystemExit
   \<and> do_p demo_session ''exit()'' demo_world =
       (Inl SystemExit, demo_world\<lparr>trace := [SuperGetval ''exit()'']\<rparr>)
   \<and> getval demo_session ''sys.exit()'' = Inl SystemExit
   \<and> RichPdb_default demo_session ''sys.exit()'' demo_world =
       (Inl SystemExit, demo_world\<lparr>trace := [SuperGetval ''sys.exit()'']\<rparr>)"
proof -
  have empty: "trace demo_world = []"
    and norm: "style_normalize (demo_world\<lparr>trace := [SuperGetval ''d[k]'']\<rparr>) = demo_normalize"
    by (simp_all add: demo_world_def module_world_def)
  have vals: "getval demo_session ''d[k]'' = Inl (Exception (KeyError ''[/]''))"
    "getval demo_session ''exit()'' = Inl SystemExit"
    "getval demo_session ''sys.exit()'' = Inl SystemExit"
    by (simp_all add: demo_session_def demo_getval_def)
  have "do_p demo_session ''d[k]'' demo_world =
      console_print (Markup (''[red]Error:[/] '' @ str_exn (KeyError ''[/]'')))
        (demo_world\<lparr>trace := [SuperGetval ''d[k]'']\<rparr>)"
    by (simp add: do_p_run error_line_markup(2) vals empty)
  also have "\<dots> = (Inl (Exception (MarkupError (nothing_to_close 16))),
        demo_world\<lparr>trace := [SuperGetval ''d[k]'']\<rparr>)"
    using norm by (rule broken_error_line)
  finally have key: "do_p demo_session ''d[k]'' demo_world =
       (Inl (Exception (MarkupError (nothing_to_close 16))),
        demo_world\<lparr>trace := [SuperGetval ''d[k]'']\<rparr>)" .
  have msg: "nothing_to_close 16 =
       ''closing tag '' @ [CHR 0x27] @ ''[/]'' @ [CHR 0x27]
         @ '' at position 16 has nothing to close''"
    by code_simp
  have quit: "do_p demo_session ''exit()'' demo_world =
       (Inl SystemExit, demo_world\<lparr>trace := [SuperGetval ''exit()'']\<rparr>)"
    unfolding do_p_run error_line_markup vals empty by simp
  have bare: "RichPdb_default demo_session ''sys.exit()'' demo_world =
       (Inl SystemExit, demo_world\<lparr>trace := [SuperGetval ''sys.exit()'']\<rparr>)"
    unfolding default_run error_line_markup vals empty by simp
  from vals key msg quit bare show ?thesis
    by blast
qed

end
